theory Spec2Isabelle
  imports Complex_Main "HOL-Library.Sublist"
begin

section \<open>The network as the probers see it\<close>

text \<open>
  Both scanners (\<^verbatim>\<open>server/cron/whoisChecker.ts\<close> and \<^verbatim>\<open>scripts/scan-domains.mjs\<close>)
  reach the outside world through \<^verbatim>\<open>fetchWithTimeout\<close> and \<^verbatim>\<open>sleep\<close> only. A call of
  \<^verbatim>\<open>fetch\<close> either resolves with a response, of which the code reads nothing but
  \<^verbatim>\<open>status\<close>, or rejects with an error, of which the code reads \<^verbatim>\<open>name\<close> and
  \<^verbatim>\<open>message\<close> (the timer's abort rejects with the name \<^verbatim>\<open>AbortError\<close>).

  The network is a function that answers the k-th request of a run, given what is
  asked. The world records how many requests were issued and, in order, every request
  and every pause: this trace is what "retries exactly once" and "is never invoked"
  are stated on.
\<close>

datatype http_method = HEAD | GET

datatype outcome = Status nat | Rejected "string" "string"

datatype action = Fetch http_method "string" nat | Sleep nat

type_synonym network = "nat \<Rightarrow> http_method \<Rightarrow> string \<Rightarrow> nat \<Rightarrow> outcome"

record world =
  issued :: nat
  trace :: "action list"

definition sleep :: "nat \<Rightarrow> world \<Rightarrow> world" where
  "sleep ms w = w\<lparr>trace := trace w @ [Sleep ms]\<rparr>"

definition fetchWithTimeout :: "network \<Rightarrow> string \<Rightarrow> http_method \<Rightarrow> nat \<Rightarrow> world \<Rightarrow> outcome \<times> world" where
  "fetchWithTimeout net url m timeoutMs w =
     (net (issued w) m url timeoutMs,
      w\<lparr>issued := Suc (issued w), trace := trace w @ [Fetch m url timeoutMs]\<rparr>)"

text \<open>
  \<^verbatim>\<open>encodeURIComponent\<close> on the UTF-8 bytes of a string: the unreserved characters
  stay, every other byte becomes \<^verbatim>\<open>%XX\<close>.
\<close>

definition uriUnreserved :: "char \<Rightarrow> bool" where
  "uriUnreserved c \<longleftrightarrow>
     c \<in> set (''ABCDEFGHIJKLMNOPQRSTUVWXYZabcdefghijklmnopqrstuvwxyz0123456789-_.!~*()'' @ [CHR 0x27])"

definition hexDigit :: "nat \<Rightarrow> char" where
  "hexDigit n = ''0123456789ABCDEF'' ! (n mod 16)"

definition encodeURIComponent :: "string \<Rightarrow> string" where
  "encodeURIComponent s =
     concat (map (\<lambda>c. if uriUnreserved c then [c]
                       else [CHR ''%'', hexDigit (of_char c div 16), hexDigit (of_char c)]) s)"

definition rdapUrl :: "string \<Rightarrow> string" where
  "rdapUrl domain = ''https://rdap.nic.ch/domain/'' @ encodeURIComponent domain"

section \<open>Registration Prober\<close>

text \<open>
  \<^verbatim>\<open>isRegistered\<close> of \<^verbatim>\<open>whoisChecker.ts\<close> (lines 45-65). Every rejection of a fetch
  is caught and gives \<^verbatim>\<open>false\<close>.
\<close>

definition isRegistered_ts :: "network \<Rightarrow> string \<Rightarrow> world \<Rightarrow> bool \<times> world" where
  "isRegistered_ts net domain w =
     (let rdap = rdapUrl domain;
          (res, w1) = fetchWithTimeout net rdap HEAD 5000 w
      in case res of
           Rejected name message \<Rightarrow> (False, w1)
         | Status s \<Rightarrow>
             if s = 200 then (True, w1)
             else if s = 404 then (False, w1)
             else if s = 429 then
               (let w2 = sleep 2000 w1;
                    (retry, w3) = fetchWithTimeout net rdap HEAD 5000 w2
                in case retry of
                     Rejected name message \<Rightarrow> (False, w3)
                   | Status r \<Rightarrow> (r = 200 \<or> r = 404, w3))
             else (False, w1))"

text \<open>
  \<^verbatim>\<open>isRegistered\<close> of \<^verbatim>\<open>scan-domains.mjs\<close> (lines 51-65; the two revisions of the
  script that the file holds have the same text here).
\<close>

definition isRegistered_mjs :: "network \<Rightarrow> string \<Rightarrow> world \<Rightarrow> bool \<times> world" where
  "isRegistered_mjs net domain w =
     (let rdap = rdapUrl domain;
          (res, w1) = fetchWithTimeout net rdap HEAD 5000 w
      in case res of
           Rejected name message \<Rightarrow> (False, w1)
         | Status s \<Rightarrow>
             if s = 429 then
               (let w2 = sleep 1000 w1;
                    (res2, w3) = fetchWithTimeout net rdap HEAD 5000 w2
                in case res2 of
                     Rejected name message \<Rightarrow> (False, w3)
                   | Status r \<Rightarrow>
                       if r = 200 \<or> r = 401 then (True, w3)
                       else if r = 404 then (False, w3)
                       else (False, w3))
             else if s = 200 \<or> s = 401 then (True, w1)
             else if s = 404 then (False, w1)
             else (False, w1))"

section \<open>Website Prober\<close>

text \<open>
  The result object of a website probe: \<^verbatim>\<open>present\<close> and the optional members
  \<^verbatim>\<open>protocol\<close>, \<^verbatim>\<open>status\<close>, \<^verbatim>\<open>urlTried\<close> and \<^verbatim>\<open>error\<close> (\<open>None\<close> for a member the
  object does not have). \<open>absent\<close> is the literal \<^verbatim>\<open>{ present: false }\<close>.
\<close>

record website =
  present :: bool
  protocol :: "string option"
  status :: "nat option"
  urlTried :: "string option"
  error :: "string option"

definition absent :: website where
  "absent = \<lparr>present = False, protocol = None, status = None, urlTried = None, error = None\<rparr>"

definition answered :: "string \<Rightarrow> nat \<Rightarrow> string \<Rightarrow> website" where
  "answered proto s url =
     \<lparr>present = (200 \<le> s \<and> s < 400), protocol = Some proto, status = Some s,
      urlTried = Some url, error = None\<rparr>"

definition failed :: "string \<Rightarrow> string \<Rightarrow> website" where
  "failed msg url =
     \<lparr>present = False, protocol = None, status = None, urlTried = Some url, error = Some msg\<rparr>"

text \<open>
  \<^verbatim>\<open>tryOnce\<close> inside \<^verbatim>\<open>checkWebsitePresence\<close> (\<^verbatim>\<open>whoisChecker.ts\<close>, lines 74-90): the
  catch clause reports \<^verbatim>\<open>timeout\<close> for an \<^verbatim>\<open>AbortError\<close> and the error's message
  otherwise.
\<close>

definition catch_ts :: "string \<Rightarrow> string \<Rightarrow> string" where
  "catch_ts name message = (if name = ''AbortError'' then ''timeout'' else message)"

definition tryOnce_ts :: "network \<Rightarrow> string \<Rightarrow> string \<Rightarrow> world \<Rightarrow> website \<times> world" where
  "tryOnce_ts net domain proto w =
     (let url = proto @ ''://'' @ domain;
          (res, w1) = fetchWithTimeout net url HEAD 5000 w
      in case res of
           Rejected name message \<Rightarrow> (failed (catch_ts name message) url, w1)
         | Status s \<Rightarrow>
             if s = 405 \<or> s = 403 then
               (let (res2, w2) = fetchWithTimeout net url GET 5000 w1
                in case res2 of
                     Rejected name message \<Rightarrow> (failed (catch_ts name message) url, w2)
                   | Status g \<Rightarrow> (answered proto g url, w2))
             else (answered proto s url, w1))"

text \<open>
  A member read as a condition: \<^verbatim>\<open>httpsResult.status ? ... : ...\<close> takes the first
  branch when the member exists and is not 0.
\<close>

definition truthy_status :: "website \<Rightarrow> bool" where
  "truthy_status r = (case status r of None \<Rightarrow> False | Some s \<Rightarrow> s \<noteq> 0)"

definition notReachable :: website where
  "notReachable =
     \<lparr>present = False, protocol = None, status = None, urlTried = None,
      error = Some ''not reachable''\<rparr>"

text \<open>\<^verbatim>\<open>checkWebsitePresence\<close> (\<^verbatim>\<open>whoisChecker.ts\<close>, lines 67-100).\<close>

definition checkWebsitePresence :: "network \<Rightarrow> string \<Rightarrow> world \<Rightarrow> website \<times> world" where
  "checkWebsitePresence net domain w =
     (let (httpsResult, w1) = tryOnce_ts net domain ''https'' w
      in if present httpsResult then (httpsResult, w1)
         else
           (let (httpResult, w2) = tryOnce_ts net domain ''http'' w1
            in if present httpResult then (httpResult, w2)
               else
                 (let best = (if truthy_status httpsResult then httpsResult else httpResult)
                  in (if present best then best else notReachable, w2))))"

text \<open>
  \<^verbatim>\<open>tryOnce\<close> and \<^verbatim>\<open>checkWebsite\<close> of the revision of \<^verbatim>\<open>scan-domains.mjs\<close> that probes
  both schemes (lines 242-271 of the file). The catch clause reports
  \<^verbatim>\<open>String(e?.message || e)\<close>: the message, or for an empty message the error printed,
  which is then its name.
\<close>

definition catch_mjs :: "string \<Rightarrow> string \<Rightarrow> string" where
  "catch_mjs name message = (if message \<noteq> [] then message else name)"

definition tryOnce_mjs :: "network \<Rightarrow> string \<Rightarrow> string \<Rightarrow> world \<Rightarrow> website \<times> world" where
  "tryOnce_mjs net domain proto w =
     (let url = proto @ ''://'' @ domain @ ''/'';
          (res, w1) = fetchWithTimeout net url HEAD 6000 w
      in case res of
           Rejected name message \<Rightarrow> (failed (catch_mjs name message) url, w1)
         | Status s \<Rightarrow>
             if s = 405 \<or> s = 403 then
               (let (res2, w2) = fetchWithTimeout net url GET 8000 w1
                in case res2 of
                     Rejected name message \<Rightarrow> (failed (catch_mjs name message) url, w2)
                   | Status g \<Rightarrow> (answered proto g url, w2))
             else (answered proto s url, w1))"

definition checkWebsite_mjs :: "network \<Rightarrow> string \<Rightarrow> world \<Rightarrow> website \<times> world" where
  "checkWebsite_mjs net domain w =
     (let (https, w1) = tryOnce_mjs net domain ''https'' w
      in if present https then (https, w1)
         else
           (let (http, w2) = tryOnce_mjs net domain ''http'' w1
            in if present http then (http, w2)
               else (if truthy_status https then https else http, w2)))"

section \<open>Scan Orchestrator\<close>

text \<open>
  A Domain Record, with the members the probers decide. The two members left out,
  \<^verbatim>\<open>tld\<close> and \<^verbatim>\<open>checkedAt\<close>, are computed from the domain string and the wall clock
  alone; neither prober and no step of the reconciler reads them.
\<close>

record domain_record =
  domain :: string
  registered :: bool
  website :: website

text \<open>
  The body of the loop of the cron handler (\<^verbatim>\<open>whoisChecker.ts\<close>, lines 136-152) and
  the loop itself, which pushes one record per domain onto \<^verbatim>\<open>results\<close>.
\<close>

definition cronBody :: "network \<Rightarrow> string \<Rightarrow> world \<Rightarrow> domain_record \<times> world" where
  "cronBody net d w =
     (let (reg, w1) = isRegistered_ts net d w;
          (site, w2) = (if reg then checkWebsitePresence net d w1 else (absent, w1))
      in (\<lparr>domain = d, registered = reg, website = site\<rparr>, sleep 150 w2))"

fun cronLoop :: "network \<Rightarrow> string list \<Rightarrow> domain_record list \<Rightarrow> world \<Rightarrow> domain_record list \<times> world" where
  "cronLoop net [] results w = (results, w)"
| "cronLoop net (d # ds) results w =
     (let (r, w') = cronBody net d w in cronLoop net ds (results @ [r]) w')"

text \<open>The same loop in \<^verbatim>\<open>main\<close> of \<^verbatim>\<open>scan-domains.mjs\<close> (lines 277-285 of the file).\<close>

definition mainBody :: "network \<Rightarrow> string \<Rightarrow> world \<Rightarrow> domain_record \<times> world" where
  "mainBody net d w =
     (let (reg, w1) = isRegistered_mjs net d w;
          (site, w2) = (if reg then checkWebsite_mjs net d w1 else (absent, w1))
      in (\<lparr>domain = d, registered = reg, website = site\<rparr>, sleep 150 w2))"

fun mainLoop :: "network \<Rightarrow> string list \<Rightarrow> domain_record list \<Rightarrow> world \<Rightarrow> domain_record list \<times> world" where
  "mainLoop net [] results w = (results, w)"
| "mainLoop net (d # ds) results w =
     (let (r, w') = mainBody net d w in mainLoop net ds (results @ [r]) w')"

section \<open>History Reconciler\<close>

text \<open>
  The history is read back with \<^verbatim>\<open>JSON.parse\<close>, so what the reconciler works on are
  JSON values: the members of an object are listed in order, under distinct keys (as
  \<^verbatim>\<open>JSON.parse\<close> produces them), and \<open>JNum\<close> carries the value of the number.
\<close>

datatype json =
    JNull
  | JBool bool
  | JNum real
  | JStr "string"
  | JArr "json list"
  | JObj "(string \<times> json) list"

text \<open>
  The history file as the run finds it (\<^verbatim>\<open>scan-domains.mjs\<close>, lines 120-131):
  \<^verbatim>\<open>fileExists\<close> fails, \<^verbatim>\<open>readFile\<close> throws, \<^verbatim>\<open>JSON.parse\<close> throws, or the text
  parses to a value.
\<close>

datatype history_file = Missing | Unreadable | Invalid_JSON | Parsed json

text \<open>
  The \<^verbatim>\<open>history\<close> object of a run: its \<^verbatim>\<open>events\<close> array and its \<^verbatim>\<open>lastState\<close>
  object, a dictionary keyed by domain. The keys are domain names: none of them is
  \<^verbatim>\<open>__proto__\<close> or the index of an array.
\<close>

record history =
  events :: "json list"
  lastState :: "string \<rightharpoonup> json"

definition emptyHistory :: history where
  "emptyHistory = \<lparr>events = [], lastState = Map.empty\<rparr>"

text \<open>
  Lines 121-131. Reading \<^verbatim>\<open>history.events\<close> of \<^verbatim>\<open>null\<close> throws, and so does the
  assignment \<^verbatim>\<open>history.events = []\<close> to a boolean, a number or a string (a module is
  strict code); the catch clause then takes the empty history. A top-level array
  gets both members fresh. Of an object, \<^verbatim>\<open>events\<close> is kept when it is an array and
  \<^verbatim>\<open>lastState\<close> when it is an object or an array (whose members are indices, never
  domain names).
\<close>

fun loadHistory :: "history_file \<Rightarrow> history" where
  "loadHistory Missing = emptyHistory"
| "loadHistory Unreadable = emptyHistory"
| "loadHistory Invalid_JSON = emptyHistory"
| "loadHistory (Parsed (JObj fs)) =
     \<lparr>events = (case map_of fs ''events'' of Some (JArr es) \<Rightarrow> es | _ \<Rightarrow> []),
      lastState = (case map_of fs ''lastState'' of Some (JObj ls) \<Rightarrow> map_of ls | _ \<Rightarrow> Map.empty)\<rparr>"
| "loadHistory (Parsed (JArr xs)) = emptyHistory"
| "loadHistory (Parsed v) = emptyHistory"

text \<open>Lines 145-148: the Status of a record.\<close>

definition currentStatus :: "domain_record \<Rightarrow> string" where
  "currentStatus entry =
     (if registered entry
      then (if present (website entry) then ''website'' else ''registered'')
      else ''available'')"

text \<open>
  Line 150, \<^verbatim>\<open>history.lastState[domain]?.status\<close>: \<open>None\<close> is \<^verbatim>\<open>undefined\<close>. Only an
  object has a member \<^verbatim>\<open>status\<close>.
\<close>

definition prevStatus :: "history \<Rightarrow> string \<Rightarrow> json option" where
  "prevStatus h d =
     (case lastState h d of
        Some (JObj fs) \<Rightarrow> map_of fs ''status''
      | _ \<Rightarrow> None)"

text \<open>Line 158, \<^verbatim>\<open>prevStatus || null\<close>.\<close>

fun truthy :: "json \<Rightarrow> bool" where
  "truthy JNull = False"
| "truthy (JBool b) = b"
| "truthy (JNum x) = (x \<noteq> 0)"
| "truthy (JStr s) = (s \<noteq> [])"
| "truthy (JArr xs) = True"
| "truthy (JObj fs) = True"

definition orNull :: "json option \<Rightarrow> json" where
  "orNull v = (case v of None \<Rightarrow> JNull | Some x \<Rightarrow> if truthy x then x else JNull)"

definition historyEvent :: "string \<Rightarrow> string \<Rightarrow> string \<Rightarrow> json \<Rightarrow> json" where
  "historyEvent now d st prev =
     JObj [(''date'', JStr now), (''domain'', JStr d), (''status'', JStr st),
           (''previousStatus'', prev)]"

text \<open>
  Lines 141-165: one turn of the loop over \<^verbatim>\<open>results\<close>, on the history and the
  counter \<^verbatim>\<open>newEvents\<close>, and the loop.
\<close>

definition reconcileEntry :: "string \<Rightarrow> history \<times> nat \<Rightarrow> domain_record \<Rightarrow> history \<times> nat" where
  "reconcileEntry now hn entry =
     (let h = fst hn; newEvents = snd hn;
          d = domain entry;
          cur = currentStatus entry;
          prev = prevStatus h d;
          (es, n) = (if Some (JStr cur) \<noteq> prev
                     then (events h @ [historyEvent now d cur (orNull prev)], Suc newEvents)
                     else (events h, newEvents))
      in (\<lparr>events = es, lastState = (lastState h)(d \<mapsto> JObj [(''status'', JStr cur)])\<rparr>, n))"

definition reconcileLoop :: "string \<Rightarrow> domain_record list \<Rightarrow> history \<Rightarrow> history \<times> nat" where
  "reconcileLoop now results h = foldl (reconcileEntry now) (h, 0) results"

text \<open>
  The engine's \<^verbatim>\<open>Date\<close>, as far as the script uses it: the offset of local time
  (\<open>LocalTZA t isUTC\<close> of the language standard, which \<^verbatim>\<open>getDate\<close> and
  \<^verbatim>\<open>setDate\<close> work through), \<^verbatim>\<open>toISOString\<close> of a time value, and the time value
  of \<^verbatim>\<open>new Date(v)\<close> for a value \<open>v\<close> (\<open>None\<close> for \<^verbatim>\<open>undefined\<close> as the argument, and
  as the result for an invalid date). Time values are milliseconds since the epoch.
\<close>

record engine =
  LocalTZA :: "int \<Rightarrow> bool \<Rightarrow> int"
  toISOString :: "int \<Rightarrow> string"
  newDate :: "json option \<Rightarrow> int option"

definition msPerDay :: int where
  "msPerDay = 86400000"

text \<open>
  Lines 168-169, \<^verbatim>\<open>cutoff.setDate(cutoff.getDate() - 365)\<close> on the clock reading \<open>t\<close>:
  the same local time of day, 365 days of the calendar earlier. (A reading of the
  clock is far inside the range of time values, so nothing is clipped.)
\<close>

definition cutoffOf :: "engine \<Rightarrow> int \<Rightarrow> int" where
  "cutoffOf E t =
     (let localNow = t + LocalTZA E t True;
          localCut = localNow - 365 * msPerDay
      in localCut - LocalTZA E localCut False)"

datatype js_error = TypeError

text \<open>
  Lines 170-173, the callback of the filter: \<^verbatim>\<open>event.date\<close> throws on \<^verbatim>\<open>null\<close>, is
  the member of an object and is \<^verbatim>\<open>undefined\<close> on anything else;
  \<^verbatim>\<open>eventDate >= cutoff\<close> is false for an invalid date.
\<close>

fun dateMember :: "json \<Rightarrow> js_error + json option" where
  "dateMember JNull = Inl TypeError"
| "dateMember (JObj fs) = Inr (map_of fs ''date'')"
| "dateMember v = Inr None"

definition keepEvent :: "engine \<Rightarrow> int \<Rightarrow> json \<Rightarrow> js_error + bool" where
  "keepEvent E cutoff event =
     (case dateMember event of
        Inl e \<Rightarrow> Inl e
      | Inr v \<Rightarrow> Inr (case newDate E v of None \<Rightarrow> False | Some eventDate \<Rightarrow> cutoff \<le> eventDate))"

text \<open>
  \<^verbatim>\<open>Array.prototype.filter\<close> with a callback that may throw: the elements are visited
  in order, and the first error ends the call.
\<close>

fun filterArray :: "('a \<Rightarrow> js_error + bool) \<Rightarrow> 'a list \<Rightarrow> js_error + 'a list" where
  "filterArray f [] = Inr []"
| "filterArray f (x # xs) =
     (case f x of
        Inl e \<Rightarrow> Inl e
      | Inr b \<Rightarrow>
          (case filterArray f xs of
             Inl e \<Rightarrow> Inl e
           | Inr kept \<Rightarrow> Inr (if b then x # kept else kept)))"

text \<open>
  Lines 138-173 as a whole, on the two readings of the clock: \<open>t1\<close> at line 138
  (\<^verbatim>\<open>now\<close>) and \<open>t2\<close> at line 168 (\<^verbatim>\<open>cutoff\<close>). The result is the history to be written
  and \<^verbatim>\<open>newEvents\<close>, or the error that ends the run.
\<close>

definition reconcile :: "engine \<Rightarrow> int \<Rightarrow> int \<Rightarrow> domain_record list \<Rightarrow> history \<Rightarrow> js_error + history \<times> nat" where
  "reconcile E t1 t2 results h0 =
     (let (h, newEvents) = reconcileLoop (toISOString E t1) results h0
      in case filterArray (keepEvent E (cutoffOf E t2)) (events h) of
           Inl e \<Rightarrow> Inl e
         | Inr kept \<Rightarrow> Inr (h\<lparr>events := kept\<rparr>, newEvents))"

text \<open>Lines 119-173: the history is loaded, then reconciled.\<close>

definition updateHistory :: "engine \<Rightarrow> int \<Rightarrow> int \<Rightarrow> domain_record list \<Rightarrow> history_file \<Rightarrow> js_error + history \<times> nat" where
  "updateHistory E t1 t2 results file = reconcile E t1 t2 results (loadHistory file)"

text \<open>
  For the concrete runs below: an engine whose local time is UTC, with
  \<^verbatim>\<open>toISOString\<close> and \<^verbatim>\<open>new Date\<close> given on the instants that occur in them (the first
  three days of 2025, and the three seconds around midnight of 2 January 2024, which
  is 365 days before 1 January 2025).
\<close>

abbreviation utcEngine :: engine where
  "utcEngine \<equiv>
     \<lparr>LocalTZA = (\<lambda>t isUTC. 0),
      toISOString = (\<lambda>t.
        if t = 1735689600000 then ''2025-01-01T00:00:00.000Z''
        else if t = 1735776000000 then ''2025-01-02T00:00:00.000Z''
        else if t = 1735862400000 then ''2025-01-03T00:00:00.000Z''
        else if t = 1704153599000 then ''2024-01-01T23:59:59.000Z''
        else if t = 1704153600000 then ''2024-01-02T00:00:00.000Z''
        else if t = 1704153601000 then ''2024-01-02T00:00:01.000Z''
        else []),
      newDate = (\<lambda>v.
        if v = Some (JStr ''2025-01-01T00:00:00.000Z'') then Some 1735689600000
        else if v = Some (JStr ''2025-01-02T00:00:00.000Z'') then Some 1735776000000
        else if v = Some (JStr ''2025-01-03T00:00:00.000Z'') then Some 1735862400000
        else if v = Some (JStr ''2024-01-01T23:59:59.000Z'') then Some 1704153599000
        else if v = Some (JStr ''2024-01-02T00:00:00.000Z'') then Some 1704153600000
        else if v = Some (JStr ''2024-01-02T00:00:01.000Z'') then Some 1704153601000
        else None)\<rparr>"

section \<open>Properties of the Registration Prober\<close>

text \<open>
  Claim C1, as the code has it. When the first lookup answers 429, each prober pauses
  once (2000 ms in \<^verbatim>\<open>whoisChecker.ts\<close>, 1000 ms in \<^verbatim>\<open>scan-domains.mjs\<close>) and sends
  the lookup exactly once more. A retry that answers 200 gives \<^verbatim>\<open>true\<close> in both.
  \<^verbatim>\<open>scan-domains.mjs\<close> gives \<^verbatim>\<open>true\<close> exactly for a retry that answers 200 or 401, so
  404 and every other outcome give \<^verbatim>\<open>false\<close> there. \<^verbatim>\<open>whoisChecker.ts\<close> gives
  \<^verbatim>\<open>false\<close> for every retry outcome other than 200 and 404.
\<close>

theorem isRegistered_rate_limited_retry:
  assumes "net (issued w) HEAD (rdapUrl d) 5000 = Status 429"
  shows "trace (snd (isRegistered_ts net d w)) =
           trace w @ [Fetch HEAD (rdapUrl d) 5000, Sleep 2000, Fetch HEAD (rdapUrl d) 5000]
       \<and> trace (snd (isRegistered_mjs net d w)) =
           trace w @ [Fetch HEAD (rdapUrl d) 5000, Sleep 1000, Fetch HEAD (rdapUrl d) 5000]
       \<and> issued (snd (isRegistered_ts net d w)) = issued w + 2
       \<and> issued (snd (isRegistered_mjs net d w)) = issued w + 2
       \<and> (net (Suc (issued w)) HEAD (rdapUrl d) 5000 = Status 200 \<longrightarrow>
            fst (isRegistered_ts net d w) \<and> fst (isRegistered_mjs net d w))
       \<and> (fst (isRegistered_mjs net d w) \<longleftrightarrow>
            net (Suc (issued w)) HEAD (rdapUrl d) 5000 \<in> {Status 200, Status 401})
       \<and> (net (Suc (issued w)) HEAD (rdapUrl d) 5000 \<notin> {Status 200, Status 404} \<longrightarrow>
            \<not> fst (isRegistered_ts net d w))"
  using assms
  by (auto simp: isRegistered_ts_def isRegistered_mjs_def fetchWithTimeout_def sleep_def Let_def
      split: outcome.splits)

theorem isRegistered_rate_limited_retry_witness:
  "fst (isRegistered_ts (\<lambda>k m u t. if k = 0 then Status 429 else Status 200) ''pff25.ch''
          \<lparr>issued = 0, trace = []\<rparr>)
   \<and> fst (isRegistered_mjs (\<lambda>k m u t. if k = 0 then Status 429 else Status 200) ''pff25.ch''
          \<lparr>issued = 0, trace = []\<rparr>)
   \<and> trace (snd (isRegistered_ts (\<lambda>k m u t. if k = 0 then Status 429 else Status 200) ''pff25.ch''
          \<lparr>issued = 0, trace = []\<rparr>)) =
       [Fetch HEAD ''https://rdap.nic.ch/domain/pff25.ch'' 5000, Sleep 2000,
        Fetch HEAD ''https://rdap.nic.ch/domain/pff25.ch'' 5000]"
  using isRegistered_rate_limited_retry
          [of "\<lambda>k m u t. if k = 0 then Status 429 else Status 200" "\<lparr>issued = 0, trace = []\<rparr>" "''pff25.ch''"]
  by (simp add: rdapUrl_def encodeURIComponent_def uriUnreserved_def)

text \<open>
  A retry that answers 401 is an outcome other than 200 and 404, and
  \<^verbatim>\<open>scan-domains.mjs\<close> reports the domain as registered.
\<close>

theorem isRegistered_mjs_retry_401:
  "fst (isRegistered_mjs (\<lambda>k m u t. if k = 0 then Status 429 else Status 401) ''pff25.ch''
          \<lparr>issued = 0, trace = []\<rparr>)"
  by (simp add: isRegistered_mjs_def fetchWithTimeout_def sleep_def Let_def)

text \<open>
  In \<^verbatim>\<open>whoisChecker.ts\<close> a retry that answers 404 gives \<^verbatim>\<open>true\<close>, although a first
  lookup that answers 404 gives \<^verbatim>\<open>false\<close> ("Domain is available").
\<close>

lemma isRegistered_ts_retry_404:
  "fst (isRegistered_ts (\<lambda>k m u t. if k = 0 then Status 429 else Status 404) ''pff25.ch''
          \<lparr>issued = 0, trace = []\<rparr>)
   \<and> \<not> fst (isRegistered_ts (\<lambda>k m u t. Status 404) ''pff25.ch'' \<lparr>issued = 0, trace = []\<rparr>)"
  by (simp add: isRegistered_ts_def fetchWithTimeout_def sleep_def Let_def)

text \<open>
  Claim C10, as the code has it. Both probers send the same requests, so they see
  the same outcomes. They return the same boolean whenever the first lookup does not
  answer 401 and, after a first 429, the retry answers neither 401 nor 404. On a 401,
  first or on the retry, \<^verbatim>\<open>scan-domains.mjs\<close> returns \<^verbatim>\<open>true\<close> and \<^verbatim>\<open>whoisChecker.ts\<close>
  returns \<^verbatim>\<open>false\<close>.
\<close>

theorem isRegistered_implementations_agree:
  "(net (issued w) HEAD (rdapUrl d) 5000 \<noteq> Status 401 \<and>
    (net (issued w) HEAD (rdapUrl d) 5000 = Status 429 \<longrightarrow>
       net (Suc (issued w)) HEAD (rdapUrl d) 5000 \<notin> {Status 401, Status 404}) \<longrightarrow>
      fst (isRegistered_ts net d w) = fst (isRegistered_mjs net d w))
   \<and> (net (issued w) HEAD (rdapUrl d) 5000 = Status 401 \<or>
      net (issued w) HEAD (rdapUrl d) 5000 = Status 429 \<and>
      net (Suc (issued w)) HEAD (rdapUrl d) 5000 = Status 401 \<longrightarrow>
      fst (isRegistered_mjs net d w) \<and> \<not> fst (isRegistered_ts net d w))"
  by (auto simp: isRegistered_ts_def isRegistered_mjs_def fetchWithTimeout_def sleep_def Let_def
      split: outcome.splits)

theorem isRegistered_implementations_agree_witness:
  "fst (isRegistered_ts (\<lambda>k m u t. if k = 0 then Status 429 else Status 503) ''pff26.ch''
          \<lparr>issued = 0, trace = []\<rparr>) =
   fst (isRegistered_mjs (\<lambda>k m u t. if k = 0 then Status 429 else Status 503) ''pff26.ch''
          \<lparr>issued = 0, trace = []\<rparr>)
   \<and> fst (isRegistered_mjs (\<lambda>k m u t. Status 401) ''pff26.ch'' \<lparr>issued = 0, trace = []\<rparr>)
   \<and> \<not> fst (isRegistered_ts (\<lambda>k m u t. Status 401) ''pff26.ch'' \<lparr>issued = 0, trace = []\<rparr>)"
  using isRegistered_implementations_agree
          [of "\<lambda>k m u t. if k = 0 then Status 429 else Status 503" "\<lparr>issued = 0, trace = []\<rparr>" "''pff26.ch''"]
        isRegistered_implementations_agree
          [of "\<lambda>k m u t. Status 401" "\<lparr>issued = 0, trace = []\<rparr>" "''pff26.ch''"]
  by simp

text \<open>The two probers differ on a lookup that answers 401.\<close>

theorem isRegistered_implementations_differ:
  "fst (isRegistered_ts (\<lambda>k m u t. Status 401) ''pff27.ch'' \<lparr>issued = 0, trace = []\<rparr>) \<noteq>
   fst (isRegistered_mjs (\<lambda>k m u t. Status 401) ''pff27.ch'' \<lparr>issued = 0, trace = []\<rparr>)"
  by (simp add: isRegistered_ts_def isRegistered_mjs_def fetchWithTimeout_def sleep_def Let_def)

section \<open>Properties of the Website Prober\<close>

lemma tryOnce_ts_cases:
  "tryOnce_ts net d p w =
     (case net (issued w) HEAD (p @ ''://'' @ d) 5000 of
        Rejected n m \<Rightarrow>
          (failed (catch_ts n m) (p @ ''://'' @ d),
           w\<lparr>issued := Suc (issued w), trace := trace w @ [Fetch HEAD (p @ ''://'' @ d) 5000]\<rparr>)
      | Status s \<Rightarrow>
          if s = 405 \<or> s = 403 then
            (case net (Suc (issued w)) GET (p @ ''://'' @ d) 5000 of
               Rejected n m \<Rightarrow> failed (catch_ts n m) (p @ ''://'' @ d)
             | Status g \<Rightarrow> answered p g (p @ ''://'' @ d),
             w\<lparr>issued := Suc (Suc (issued w)),
               trace := trace w @ [Fetch HEAD (p @ ''://'' @ d) 5000,
                                   Fetch GET (p @ ''://'' @ d) 5000]\<rparr>)
          else
            (answered p s (p @ ''://'' @ d),
             w\<lparr>issued := Suc (issued w), trace := trace w @ [Fetch HEAD (p @ ''://'' @ d) 5000]\<rparr>))"
  by (simp add: tryOnce_ts_def fetchWithTimeout_def Let_def split: outcome.splits)

lemma tryOnce_mjs_cases:
  "tryOnce_mjs net d p w =
     (case net (issued w) HEAD (p @ ''://'' @ d @ ''/'') 6000 of
        Rejected n m \<Rightarrow>
          (failed (catch_mjs n m) (p @ ''://'' @ d @ ''/''),
           w\<lparr>issued := Suc (issued w),
             trace := trace w @ [Fetch HEAD (p @ ''://'' @ d @ ''/'') 6000]\<rparr>)
      | Status s \<Rightarrow>
          if s = 405 \<or> s = 403 then
            (case net (Suc (issued w)) GET (p @ ''://'' @ d @ ''/'') 8000 of
               Rejected n m \<Rightarrow> failed (catch_mjs n m) (p @ ''://'' @ d @ ''/'')
             | Status g \<Rightarrow> answered p g (p @ ''://'' @ d @ ''/''),
             w\<lparr>issued := Suc (Suc (issued w)),
               trace := trace w @ [Fetch HEAD (p @ ''://'' @ d @ ''/'') 6000,
                                   Fetch GET (p @ ''://'' @ d @ ''/'') 8000]\<rparr>)
          else
            (answered p s (p @ ''://'' @ d @ ''/''),
             w\<lparr>issued := Suc (issued w),
               trace := trace w @ [Fetch HEAD (p @ ''://'' @ d @ ''/'') 6000]\<rparr>))"
  by (simp add: tryOnce_mjs_def fetchWithTimeout_def Let_def split: outcome.splits)

lemma tryOnce_ts_escalation:
  "(present (fst (tryOnce_ts net d p w)) \<longleftrightarrow>
     (\<exists>c. status (fst (tryOnce_ts net d p w)) = Some c \<and> 200 \<le> c \<and> c < 400))
   \<and> (\<forall>s. net (issued w) HEAD (p @ ''://'' @ d) 5000 = Status s \<and> (s = 403 \<or> s = 405) \<longrightarrow>
        trace (snd (tryOnce_ts net d p w)) =
          trace w @ [Fetch HEAD (p @ ''://'' @ d) 5000, Fetch GET (p @ ''://'' @ d) 5000]
        \<and> status (fst (tryOnce_ts net d p w)) =
            (case net (Suc (issued w)) GET (p @ ''://'' @ d) 5000 of
               Status g \<Rightarrow> Some g | Rejected n m \<Rightarrow> None))
   \<and> (\<forall>s. net (issued w) HEAD (p @ ''://'' @ d) 5000 = Status s \<and> s \<noteq> 403 \<and> s \<noteq> 405 \<longrightarrow>
        trace (snd (tryOnce_ts net d p w)) = trace w @ [Fetch HEAD (p @ ''://'' @ d) 5000]
        \<and> status (fst (tryOnce_ts net d p w)) = Some s)"
  by (auto simp add: tryOnce_ts_cases answered_def failed_def split: outcome.splits)

lemma tryOnce_mjs_escalation:
  "(present (fst (tryOnce_mjs net d p w)) \<longleftrightarrow>
     (\<exists>c. status (fst (tryOnce_mjs net d p w)) = Some c \<and> 200 \<le> c \<and> c < 400))
   \<and> (\<forall>s. net (issued w) HEAD (p @ ''://'' @ d @ ''/'') 6000 = Status s \<and> (s = 403 \<or> s = 405) \<longrightarrow>
        trace (snd (tryOnce_mjs net d p w)) =
          trace w @ [Fetch HEAD (p @ ''://'' @ d @ ''/'') 6000, Fetch GET (p @ ''://'' @ d @ ''/'') 8000]
        \<and> status (fst (tryOnce_mjs net d p w)) =
            (case net (Suc (issued w)) GET (p @ ''://'' @ d @ ''/'') 8000 of
               Status g \<Rightarrow> Some g | Rejected n m \<Rightarrow> None))
   \<and> (\<forall>s. net (issued w) HEAD (p @ ''://'' @ d @ ''/'') 6000 = Status s \<and> s \<noteq> 403 \<and> s \<noteq> 405 \<longrightarrow>
        trace (snd (tryOnce_mjs net d p w)) = trace w @ [Fetch HEAD (p @ ''://'' @ d @ ''/'') 6000]
        \<and> status (fst (tryOnce_mjs net d p w)) = Some s)"
  by (auto simp add: tryOnce_mjs_cases answered_def failed_def split: outcome.splits)

text \<open>
  Claim C7. In each attempt of either prober, a HEAD that answers 403 or 405 is
  followed by one GET of the same URL, and the status of the GET is the status of
  the attempt (the attempt has none when the GET is rejected); after any other HEAD
  status no GET is sent and that status is the status of the attempt. An attempt is
  present exactly when it has a status from 200 up to, but not including, 400.
\<close>

theorem tryOnce_get_after_rejected_head:
  "((present (fst (tryOnce_ts net d p w)) \<longleftrightarrow>
      (\<exists>c. status (fst (tryOnce_ts net d p w)) = Some c \<and> 200 \<le> c \<and> c < 400))
    \<and> (\<forall>s. net (issued w) HEAD (p @ ''://'' @ d) 5000 = Status s \<and> (s = 403 \<or> s = 405) \<longrightarrow>
         trace (snd (tryOnce_ts net d p w)) =
           trace w @ [Fetch HEAD (p @ ''://'' @ d) 5000, Fetch GET (p @ ''://'' @ d) 5000]
         \<and> status (fst (tryOnce_ts net d p w)) =
             (case net (Suc (issued w)) GET (p @ ''://'' @ d) 5000 of
                Status g \<Rightarrow> Some g | Rejected n m \<Rightarrow> None))
    \<and> (\<forall>s. net (issued w) HEAD (p @ ''://'' @ d) 5000 = Status s \<and> s \<noteq> 403 \<and> s \<noteq> 405 \<longrightarrow>
         trace (snd (tryOnce_ts net d p w)) = trace w @ [Fetch HEAD (p @ ''://'' @ d) 5000]
         \<and> status (fst (tryOnce_ts net d p w)) = Some s))
   \<and>
   ((present (fst (tryOnce_mjs net d p w)) \<longleftrightarrow>
      (\<exists>c. status (fst (tryOnce_mjs net d p w)) = Some c \<and> 200 \<le> c \<and> c < 400))
    \<and> (\<forall>s. net (issued w) HEAD (p @ ''://'' @ d @ ''/'') 6000 = Status s \<and> (s = 403 \<or> s = 405) \<longrightarrow>
         trace (snd (tryOnce_mjs net d p w)) =
           trace w @ [Fetch HEAD (p @ ''://'' @ d @ ''/'') 6000, Fetch GET (p @ ''://'' @ d @ ''/'') 8000]
         \<and> status (fst (tryOnce_mjs net d p w)) =
             (case net (Suc (issued w)) GET (p @ ''://'' @ d @ ''/'') 8000 of
                Status g \<Rightarrow> Some g | Rejected n m \<Rightarrow> None))
    \<and> (\<forall>s. net (issued w) HEAD (p @ ''://'' @ d @ ''/'') 6000 = Status s \<and> s \<noteq> 403 \<and> s \<noteq> 405 \<longrightarrow>
         trace (snd (tryOnce_mjs net d p w)) = trace w @ [Fetch HEAD (p @ ''://'' @ d @ ''/'') 6000]
         \<and> status (fst (tryOnce_mjs net d p w)) = Some s))"
  by (rule conjI [OF tryOnce_ts_escalation tryOnce_mjs_escalation])

theorem tryOnce_get_after_rejected_head_witness:
  "present (fst (tryOnce_ts (\<lambda>k m u t. if m = HEAD then Status 403 else Status 200)
                   ''c.ch'' ''https'' \<lparr>issued = 0, trace = []\<rparr>))
   \<and> status (fst (tryOnce_ts (\<lambda>k m u t. if m = HEAD then Status 403 else Status 200)
                   ''c.ch'' ''https'' \<lparr>issued = 0, trace = []\<rparr>)) = Some 200
   \<and> trace (snd (tryOnce_ts (\<lambda>k m u t. if m = HEAD then Status 403 else Status 200)
                   ''c.ch'' ''https'' \<lparr>issued = 0, trace = []\<rparr>)) =
       [Fetch HEAD ''https://c.ch'' 5000, Fetch GET ''https://c.ch'' 5000]
   \<and> present (fst (tryOnce_mjs (\<lambda>k m u t. if m = HEAD then Status 403 else Status 200)
                   ''c.ch'' ''https'' \<lparr>issued = 0, trace = []\<rparr>))
   \<and> trace (snd (tryOnce_mjs (\<lambda>k m u t. if m = HEAD then Status 403 else Status 200)
                   ''c.ch'' ''https'' \<lparr>issued = 0, trace = []\<rparr>)) =
       [Fetch HEAD ''https://c.ch/'' 6000, Fetch GET ''https://c.ch/'' 8000]"
  using tryOnce_get_after_rejected_head
          [of "\<lambda>k m u t. if m = HEAD then Status 403 else Status 200" "''c.ch''" "''https''"
              "\<lparr>issued = 0, trace = []\<rparr>"]
  by simp

text \<open>
  Claim C2 at an input where it fails in \<^verbatim>\<open>whoisChecker.ts\<close>: https answers 500 and
  http is rejected. \<^verbatim>\<open>checkWebsitePresence\<close> answers with the generic "not reachable"
  object and drops the https attempt and its status; \<^verbatim>\<open>checkWebsite\<close> of
  \<^verbatim>\<open>scan-domains.mjs\<close> returns the https attempt.
\<close>

theorem checkWebsitePresence_drops_https_status:
  "fst (checkWebsitePresence
          (\<lambda>k m u t. if k = 0 then Status 500 else Rejected ''TypeError'' ''fetch failed'')
          ''x.ch'' \<lparr>issued = 0, trace = []\<rparr>) = notReachable
   \<and> fst (checkWebsite_mjs
          (\<lambda>k m u t. if k = 0 then Status 500 else Rejected ''TypeError'' ''fetch failed'')
          ''x.ch'' \<lparr>issued = 0, trace = []\<rparr>) = answered ''https'' 500 ''https://x.ch/''"
  by (simp add: checkWebsitePresence_def checkWebsite_mjs_def tryOnce_ts_cases tryOnce_mjs_cases
        answered_def failed_def truthy_status_def)

text \<open>
  More generally: whenever neither attempt is present, \<^verbatim>\<open>checkWebsitePresence\<close>
  returns the generic object, whatever the attempts carry, since the attempt it has
  picked as \<^verbatim>\<open>best\<close> is never present; \<^verbatim>\<open>checkWebsite\<close> returns the https attempt
  when its status is truthy and the http attempt otherwise.
\<close>

lemma checkWebsitePresence_never_best:
  assumes np: "\<not> present (fst (checkWebsitePresence net d w))"
  shows "fst (checkWebsitePresence net d w) = notReachable"
proof -
  obtain a w1 where a: "tryOnce_ts net d ''https'' w = (a, w1)"
    by (cases "tryOnce_ts net d ''https'' w")
  obtain b w2 where b: "tryOnce_ts net d ''http'' w1 = (b, w2)"
    by (cases "tryOnce_ts net d ''http'' w1")
  from np have na: "\<not> present a"
    by (auto simp: checkWebsitePresence_def a b Let_def split: if_splits)
  from np na have nb: "\<not> present b"
    by (auto simp: checkWebsitePresence_def a b Let_def split: if_splits)
  from na nb show ?thesis
    by (simp add: checkWebsitePresence_def a b Let_def)
qed

lemma checkWebsite_mjs_choice:
  assumes "tryOnce_mjs net d ''https'' w = (a, w1)" and "tryOnce_mjs net d ''http'' w1 = (b, w2)"
    and "\<not> present a" and "\<not> present b"
  shows "fst (checkWebsite_mjs net d w) = (if truthy_status a then a else b)"
  using assms by (simp add: checkWebsite_mjs_def Let_def)

section \<open>Properties of the Scan Orchestrator\<close>

lemma cronBody_unregistered:
  "\<not> fst (isRegistered_ts net d w) \<Longrightarrow>
     cronBody net d w =
       (\<lparr>domain = d, registered = False, website = absent\<rparr>,
        sleep 150 (snd (isRegistered_ts net d w)))"
  by (cases "isRegistered_ts net d w") (simp add: cronBody_def)

lemma mainBody_unregistered:
  "\<not> fst (isRegistered_mjs net d w) \<Longrightarrow>
     mainBody net d w =
       (\<lparr>domain = d, registered = False, website = absent\<rparr>,
        sleep 150 (snd (isRegistered_mjs net d w)))"
  by (cases "isRegistered_mjs net d w") (simp add: mainBody_def)

lemma cronBody_record:
  "domain (fst (cronBody net d w)) = d \<and>
   registered (fst (cronBody net d w)) = fst (isRegistered_ts net d w) \<and>
   (\<not> registered (fst (cronBody net d w)) \<longrightarrow> website (fst (cronBody net d w)) = absent)"
  by (cases "isRegistered_ts net d w") (simp add: cronBody_def split: prod.splits)

lemma mainBody_record:
  "domain (fst (mainBody net d w)) = d \<and>
   registered (fst (mainBody net d w)) = fst (isRegistered_mjs net d w) \<and>
   (\<not> registered (fst (mainBody net d w)) \<longrightarrow> website (fst (mainBody net d w)) = absent)"
  by (cases "isRegistered_mjs net d w") (simp add: mainBody_def split: prod.splits)

lemma cronLoop_Cons:
  "cronLoop net (d # ds) acc w =
     cronLoop net ds (acc @ [fst (cronBody net d w)]) (snd (cronBody net d w))"
  by (simp split: prod.splits)

lemma mainLoop_Cons:
  "mainLoop net (d # ds) acc w =
     mainLoop net ds (acc @ [fst (mainBody net d w)]) (snd (mainBody net d w))"
  by (simp split: prod.splits)

lemma cronLoop_records:
  "(\<And>x. x \<in> set acc \<Longrightarrow> \<not> registered x \<Longrightarrow> website x = absent) \<Longrightarrow>
   r \<in> set (fst (cronLoop net ds acc w)) \<Longrightarrow> \<not> registered r \<Longrightarrow> website r = absent"
proof (induction ds arbitrary: acc w)
  case Nil
  then show ?case by simp
next
  case (Cons d ds)
  have step: "\<And>x. x \<in> set (acc @ [fst (cronBody net d w)]) \<Longrightarrow> \<not> registered x \<Longrightarrow> website x = absent"
    using Cons.prems(1) cronBody_record [of net d w] by auto
  from Cons.prems(2)
  have "r \<in> set (fst (cronLoop net ds (acc @ [fst (cronBody net d w)]) (snd (cronBody net d w))))"
    by (simp only: cronLoop_Cons)
  from Cons.IH [OF step this Cons.prems(3)] show ?case .
qed

lemma mainLoop_records:
  "(\<And>x. x \<in> set acc \<Longrightarrow> \<not> registered x \<Longrightarrow> website x = absent) \<Longrightarrow>
   r \<in> set (fst (mainLoop net ds acc w)) \<Longrightarrow> \<not> registered r \<Longrightarrow> website r = absent"
proof (induction ds arbitrary: acc w)
  case Nil
  then show ?case by simp
next
  case (Cons d ds)
  have step: "\<And>x. x \<in> set (acc @ [fst (mainBody net d w)]) \<Longrightarrow> \<not> registered x \<Longrightarrow> website x = absent"
    using Cons.prems(1) mainBody_record [of net d w] by auto
  from Cons.prems(2)
  have "r \<in> set (fst (mainLoop net ds (acc @ [fst (mainBody net d w)]) (snd (mainBody net d w))))"
    by (simp only: mainLoop_Cons)
  from Cons.IH [OF step this Cons.prems(3)] show ?case .
qed

lemma cronLoop_domains: "map domain (fst (cronLoop net ds acc w)) = map domain acc @ ds"
proof (induction ds arbitrary: acc w)
  case Nil
  then show ?case by simp
next
  case (Cons d ds)
  show ?case
    by (simp only: cronLoop_Cons Cons.IH) (simp add: cronBody_record)
qed

lemma mainLoop_domains: "map domain (fst (mainLoop net ds acc w)) = map domain acc @ ds"
proof (induction ds arbitrary: acc w)
  case Nil
  then show ?case by simp
next
  case (Cons d ds)
  show ?case
    by (simp only: mainLoop_Cons Cons.IH) (simp add: mainBody_record)
qed

text \<open>
  Claim C8. In both scanners, when the Registration Prober returns \<^verbatim>\<open>false\<close> for a
  domain, the turn of the loop for that domain does nothing beyond the prober's own
  requests and the pacing pause of 150 ms (so no request of the Website Prober is
  sent), and the record it pushes has \<^verbatim>\<open>website\<close> equal to \<^verbatim>\<open>{ present: false }\<close>. A
  run pushes one record per domain, in order, and every record of the run that is
  not registered has that default website.
\<close>

theorem unregistered_domain_is_not_probed:
  "(\<not> fst (isRegistered_ts net d w) \<longrightarrow>
      website (fst (cronBody net d w)) = absent \<and>
      \<not> registered (fst (cronBody net d w)) \<and>
      snd (cronBody net d w) = sleep 150 (snd (isRegistered_ts net d w)))
   \<and> (\<not> fst (isRegistered_mjs net d w) \<longrightarrow>
      website (fst (mainBody net d w)) = absent \<and>
      \<not> registered (fst (mainBody net d w)) \<and>
      snd (mainBody net d w) = sleep 150 (snd (isRegistered_mjs net d w)))
   \<and> map domain (fst (cronLoop net ds [] w)) = ds
   \<and> map domain (fst (mainLoop net ds [] w)) = ds
   \<and> (\<forall>r \<in> set (fst (cronLoop net ds [] w)). \<not> registered r \<longrightarrow> website r = absent)
   \<and> (\<forall>r \<in> set (fst (mainLoop net ds [] w)). \<not> registered r \<longrightarrow> website r = absent)"
proof (intro conjI impI ballI)
  fix r assume "r \<in> set (fst (cronLoop net ds [] w))" "\<not> registered r"
  then show "website r = absent"
    using cronLoop_records [of "[]" r net ds w] by simp
next
  fix r assume "r \<in> set (fst (mainLoop net ds [] w))" "\<not> registered r"
  then show "website r = absent"
    using mainLoop_records [of "[]" r net ds w] by simp
qed (simp_all add: cronBody_unregistered mainBody_unregistered cronLoop_domains mainLoop_domains)

theorem unregistered_domain_is_not_probed_witness:
  "fst (cronLoop (\<lambda>k m u t. Status 404) [''a.ch''] [] \<lparr>issued = 0, trace = []\<rparr>) =
     [\<lparr>domain = ''a.ch'', registered = False, website = absent\<rparr>]
   \<and> trace (snd (cronBody (\<lambda>k m u t. Status 404) ''a.ch'' \<lparr>issued = 0, trace = []\<rparr>)) =
       [Fetch HEAD ''https://rdap.nic.ch/domain/a.ch'' 5000, Sleep 150]
   \<and> trace (snd (mainBody (\<lambda>k m u t. Status 404) ''a.ch'' \<lparr>issued = 0, trace = []\<rparr>)) =
       [Fetch HEAD ''https://rdap.nic.ch/domain/a.ch'' 5000, Sleep 150]"
  using unregistered_domain_is_not_probed
          [of "\<lambda>k m u t. Status 404" "''a.ch''" "\<lparr>issued = 0, trace = []\<rparr>" "[''a.ch'']"]
  by (simp add: isRegistered_ts_def isRegistered_mjs_def fetchWithTimeout_def sleep_def Let_def
        cronBody_def rdapUrl_def encodeURIComponent_def uriUnreserved_def)

section \<open>Properties of the History Reconciler\<close>

lemma reconcileEntry_lastState:
  "lastState (fst (reconcileEntry now (h, n) r)) =
     (lastState h)(domain r \<mapsto> JObj [(''status'', JStr (currentStatus r))])"
  by (simp add: reconcileEntry_def Let_def split: prod.splits)

lemma reconcileEntry_events:
  "events (fst (reconcileEntry now (h, n) r)) =
     events h @ (if Some (JStr (currentStatus r)) \<noteq> prevStatus h (domain r)
                 then [historyEvent now (domain r) (currentStatus r) (orNull (prevStatus h (domain r)))]
                 else [])"
  by (simp add: reconcileEntry_def Let_def split: prod.splits)









lemma keepEvent_throws: "keepEvent E c e = Inl x \<longleftrightarrow> e = JNull"
  by (cases e; cases x) (simp_all add: keepEvent_def)

lemma filterArray_total:
  "\<forall>x \<in> set xs. \<exists>b. f x = Inr b \<Longrightarrow>
   filterArray f xs = Inr (filter (\<lambda>x. f x = Inr True) xs)"
proof (induction xs)
  case Nil
  then show ?case by simp
next
  case (Cons a xs)
  then obtain b where b: "f a = Inr b" by auto
  from Cons have "filterArray f xs = Inr (filter (\<lambda>x. f x = Inr True) xs)" by simp
  with b show ?case by simp
qed


lemma prune_ok:
  "JNull \<notin> set es \<Longrightarrow>
   filterArray (keepEvent E c) es = Inr (filter (\<lambda>e. keepEvent E c e = Inr True) es)"
proof -
  assume n: "JNull \<notin> set es"
  have "\<forall>x \<in> set es. \<exists>b. keepEvent E c x = Inr b"
  proof
    fix x assume "x \<in> set es"
    with n have "x \<noteq> JNull" by auto
    then show "\<exists>b. keepEvent E c x = Inr b"
      by (cases "keepEvent E c x") (simp_all add: keepEvent_throws)
  qed
  then show ?thesis by (rule filterArray_total)
qed





text \<open>
  Claim C6. The Status that the reconciler derives from a record is one of
  \<^verbatim>\<open>available\<close>, \<^verbatim>\<open>registered\<close> and \<^verbatim>\<open>website\<close>: \<^verbatim>\<open>available\<close> exactly when the record
  is not registered, \<^verbatim>\<open>website\<close> exactly when it is registered and its website is
  present, \<^verbatim>\<open>registered\<close> exactly when it is registered and its website is not
  present. It is the status stored for the domain in \<^verbatim>\<open>lastState\<close>.
\<close>

theorem currentStatus_is_one_of_three:
  "currentStatus r \<in> {''available'', ''registered'', ''website''}
   \<and> (currentStatus r = ''available'' \<longleftrightarrow> \<not> registered r)
   \<and> (currentStatus r = ''website'' \<longleftrightarrow> registered r \<and> present (website r))
   \<and> (currentStatus r = ''registered'' \<longleftrightarrow> registered r \<and> \<not> present (website r))
   \<and> lastState (fst (reconcileEntry now (h, n) r)) (domain r) =
       Some (JObj [(''status'', JStr (currentStatus r))])"
  by (simp add: currentStatus_def reconcileEntry_lastState)

theorem currentStatus_is_one_of_three_witness:
  "currentStatus \<lparr>domain = ''a.ch'', registered = False, website = absent\<rparr> = ''available''
   \<and> currentStatus \<lparr>domain = ''b.ch'', registered = True,
         website = answered ''https'' 200 ''https://b.ch/''\<rparr> = ''website''
   \<and> currentStatus \<lparr>domain = ''c.ch'', registered = True, website = absent\<rparr> = ''registered''"
  using currentStatus_is_one_of_three
          [of "\<lparr>domain = ''a.ch'', registered = False, website = absent\<rparr>"]
        currentStatus_is_one_of_three
          [of "\<lparr>domain = ''b.ch'', registered = True, website = answered ''https'' 200 ''https://b.ch/''\<rparr>"]
        currentStatus_is_one_of_three
          [of "\<lparr>domain = ''c.ch'', registered = True, website = absent\<rparr>"]
  by (simp add: absent_def answered_def)

lemma reconcile_single:
  assumes "JNull \<notin> set (events h)"
  shows "reconcile E t1 t2 [r] h =
     Inr (\<lparr>events = filter (\<lambda>e. keepEvent E (cutoffOf E t2) e = Inr True)
                      (events (fst (reconcileEntry (toISOString E t1) (h, 0) r))),
           lastState = (lastState h)(domain r \<mapsto> JObj [(''status'', JStr (currentStatus r))])\<rparr>,
          snd (reconcileEntry (toISOString E t1) (h, 0) r))"
proof -
  obtain h' n' where s: "reconcileEntry (toISOString E t1) (h, 0) r = (h', n')"
    by (cases "reconcileEntry (toISOString E t1) (h, 0) r")
  have "events h' = events (fst (reconcileEntry (toISOString E t1) (h, 0) r))"
    by (simp add: s)
  with assms have "JNull \<notin> set (events h')"
    by (simp add: reconcileEntry_events historyEvent_def)
  then have p: "filterArray (keepEvent E (cutoffOf E t2)) (events h') =
               Inr (filter (\<lambda>e. keepEvent E (cutoffOf E t2) e = Inr True) (events h'))"
    by (rule prune_ok)
  have l: "lastState h' = (lastState h)(domain r \<mapsto> JObj [(''status'', JStr (currentStatus r))])"
    using reconcileEntry_lastState [of "toISOString E t1" h 0 r] by (simp add: s)
  show ?thesis
    by (simp add: reconcile_def reconcileLoop_def s p l)
qed

text \<open>
  Claim C3, as the code has it. One domain, no history file, three runs in which the
  domain is first available, then registered without a website, then registered
  with a website: every run appends one event, three in all. The first has
  \<^verbatim>\<open>previousStatus\<close> \<^verbatim>\<open>null\<close> and status \<^verbatim>\<open>available\<close>, the second goes from
  \<^verbatim>\<open>available\<close> to \<^verbatim>\<open>registered\<close>, the third from \<^verbatim>\<open>registered\<close> to \<^verbatim>\<open>website\<close>. Each
  run hands its history to the next as it wrote it.
\<close>

theorem three_runs_three_events:
  assumes w2: "\<not> present w2" and w3: "present w3"
  shows "\<exists>h1 h2 h3.
     updateHistory E a1 b1 [\<lparr>domain = d, registered = False, website = w1\<rparr>] Missing = Inr (h1, 1)
   \<and> reconcile E a2 b2 [\<lparr>domain = d, registered = True, website = w2\<rparr>] h1 = Inr (h2, 1)
   \<and> reconcile E a3 b3 [\<lparr>domain = d, registered = True, website = w3\<rparr>] h2 = Inr (h3, 1)
   \<and> events (fst (reconcileLoop (toISOString E a1)
                 [\<lparr>domain = d, registered = False, website = w1\<rparr>] emptyHistory)) =
         [historyEvent (toISOString E a1) d ''available'' JNull]
   \<and> events (fst (reconcileLoop (toISOString E a2)
                 [\<lparr>domain = d, registered = True, website = w2\<rparr>] h1)) =
         events h1 @ [historyEvent (toISOString E a2) d ''registered'' (JStr ''available'')]
   \<and> events (fst (reconcileLoop (toISOString E a3)
                 [\<lparr>domain = d, registered = True, website = w3\<rparr>] h2)) =
         events h2 @ [historyEvent (toISOString E a3) d ''website'' (JStr ''registered'')]"
proof -
  let ?r1 = "\<lparr>domain = d, registered = False, website = w1\<rparr>"
  let ?r2 = "\<lparr>domain = d, registered = True, website = w2\<rparr>"
  let ?r3 = "\<lparr>domain = d, registered = True, website = w3\<rparr>"
  let ?keep = "\<lambda>b e. keepEvent E (cutoffOf E b) e = Inr True"
  define h1 where "h1 = \<lparr>events = filter (?keep b1) [historyEvent (toISOString E a1) d ''available'' JNull],
      lastState = Map.empty(d \<mapsto> JObj [(''status'', JStr ''available'')])\<rparr>"
  define h2 where "h2 = \<lparr>events = filter (?keep b2)
         (events h1 @ [historyEvent (toISOString E a2) d ''registered'' (JStr ''available'')]),
      lastState = (lastState h1)(d \<mapsto> JObj [(''status'', JStr ''registered'')])\<rparr>"
  define h3 where "h3 = \<lparr>events = filter (?keep b3)
         (events h2 @ [historyEvent (toISOString E a3) d ''website'' (JStr ''registered'')]),
      lastState = (lastState h2)(d \<mapsto> JObj [(''status'', JStr ''website'')])\<rparr>"
  have c1: "currentStatus ?r1 = ''available''" by (simp add: currentStatus_def)
  have c2: "currentStatus ?r2 = ''registered''" using w2 by (simp add: currentStatus_def)
  have c3: "currentStatus ?r3 = ''website''" using w3 by (simp add: currentStatus_def)
  have e1: "reconcileEntry (toISOString E a1) (\<lparr>events = [], lastState = Map.empty\<rparr>, 0) ?r1 =
      (\<lparr>events = [historyEvent (toISOString E a1) d ''available'' JNull],
        lastState = Map.empty(d \<mapsto> JObj [(''status'', JStr ''available'')])\<rparr>, 1)"
    by (simp add: reconcileEntry_def Let_def c1 prevStatus_def orNull_def)
  have p1: "prevStatus h1 d = Some (JStr ''available'')"
    by (simp add: prevStatus_def h1_def)
  have e2: "reconcileEntry (toISOString E a2) (h1, 0) ?r2 =
      (\<lparr>events = events h1 @ [historyEvent (toISOString E a2) d ''registered'' (JStr ''available'')],
        lastState = (lastState h1)(d \<mapsto> JObj [(''status'', JStr ''registered'')])\<rparr>, 1)"
    by (simp add: reconcileEntry_def Let_def c2 p1 orNull_def)
  have p2: "prevStatus h2 d = Some (JStr ''registered'')"
    by (simp add: prevStatus_def h2_def)
  have e3: "reconcileEntry (toISOString E a3) (h2, 0) ?r3 =
      (\<lparr>events = events h2 @ [historyEvent (toISOString E a3) d ''website'' (JStr ''registered'')],
        lastState = (lastState h2)(d \<mapsto> JObj [(''status'', JStr ''website'')])\<rparr>, 1)"
    by (simp add: reconcileEntry_def Let_def c3 p2 orNull_def)
  have n0: "JNull \<notin> set (events \<lparr>events = [], lastState = Map.empty\<rparr>)" by simp
  have n1: "JNull \<notin> set (events h1)" by (simp add: h1_def historyEvent_def)
  have n2: "JNull \<notin> set (events h2)" using n1 by (simp add: h2_def historyEvent_def)
  have r1: "updateHistory E a1 b1 [?r1] Missing = Inr (h1, 1)"
    by (simp add: updateHistory_def emptyHistory_def reconcile_single [OF n0] e1 c1 h1_def)
  have r2: "reconcile E a2 b2 [?r2] h1 = Inr (h2, 1)"
    by (simp add: reconcile_single [OF n1] e2 c2 h2_def)
  have r3: "reconcile E a3 b3 [?r3] h2 = Inr (h3, 1)"
    by (simp add: reconcile_single [OF n2] e3 c3 h3_def)
  have l1: "events (fst (reconcileLoop (toISOString E a1) [?r1] emptyHistory)) =
         [historyEvent (toISOString E a1) d ''available'' JNull]"
    by (simp add: reconcileLoop_def emptyHistory_def e1)
  have l2: "events (fst (reconcileLoop (toISOString E a2) [?r2] h1)) =
         events h1 @ [historyEvent (toISOString E a2) d ''registered'' (JStr ''available'')]"
    by (simp add: reconcileLoop_def e2)
  have l3: "events (fst (reconcileLoop (toISOString E a3) [?r3] h2)) =
         events h2 @ [historyEvent (toISOString E a3) d ''website'' (JStr ''registered'')]"
    by (simp add: reconcileLoop_def e3)
  from r1 r2 r3 l1 l2 l3 show ?thesis by blast
qed


theorem three_runs_three_events_witness:
  "\<exists>h1 h2 h3.
     updateHistory utcEngine 1735689600000 1735689600000
       [\<lparr>domain = ''a.ch'', registered = False, website = absent\<rparr>] Missing = Inr (h1, 1)
   \<and> reconcile utcEngine 1735776000000 1735776000000
       [\<lparr>domain = ''a.ch'', registered = True, website = absent\<rparr>] h1 = Inr (h2, 1)
   \<and> reconcile utcEngine 1735862400000 1735862400000
       [\<lparr>domain = ''a.ch'', registered = True,
         website = answered ''https'' 200 ''https://a.ch/''\<rparr>] h2 = Inr (h3, 1)
   \<and> events (fst (reconcileLoop (toISOString utcEngine 1735689600000)
                 [\<lparr>domain = ''a.ch'', registered = False, website = absent\<rparr>] emptyHistory)) =
         [historyEvent (toISOString utcEngine 1735689600000) ''a.ch'' ''available'' JNull]
   \<and> events (fst (reconcileLoop (toISOString utcEngine 1735776000000)
                 [\<lparr>domain = ''a.ch'', registered = True, website = absent\<rparr>] h1)) =
         events h1 @ [historyEvent (toISOString utcEngine 1735776000000) ''a.ch'' ''registered''
                        (JStr ''available'')]
   \<and> events (fst (reconcileLoop (toISOString utcEngine 1735862400000)
                 [\<lparr>domain = ''a.ch'', registered = True,
                   website = answered ''https'' 200 ''https://a.ch/''\<rparr>] h2)) =
         events h2 @ [historyEvent (toISOString utcEngine 1735862400000) ''a.ch'' ''website''
                        (JStr ''registered'')]"
  by (rule three_runs_three_events) (simp_all add: absent_def answered_def)

lemma utc_cutoff: "cutoffOf utcEngine t = t - 31536000000"
  by (simp add: cutoffOf_def msPerDay_def)

text \<open>
  The three runs on the first three days of 2025, for \<^verbatim>\<open>a.ch\<close>: the history ends
  with three events, not two.
\<close>

theorem three_runs_leave_three_events:
  "updateHistory utcEngine 1735689600000 1735689600000
     [\<lparr>domain = ''a.ch'', registered = False, website = absent\<rparr>] Missing =
   Inr (\<lparr>events =
           [JObj [(''date'', JStr ''2025-01-01T00:00:00.000Z''), (''domain'', JStr ''a.ch''),
                  (''status'', JStr ''available''), (''previousStatus'', JNull)]],
         lastState = [''a.ch'' \<mapsto> JObj [(''status'', JStr ''available'')]]\<rparr>, 1)
   \<and> reconcile utcEngine 1735776000000 1735776000000
     [\<lparr>domain = ''a.ch'', registered = True, website = absent\<rparr>]
     \<lparr>events =
        [JObj [(''date'', JStr ''2025-01-01T00:00:00.000Z''), (''domain'', JStr ''a.ch''),
               (''status'', JStr ''available''), (''previousStatus'', JNull)]],
      lastState = [''a.ch'' \<mapsto> JObj [(''status'', JStr ''available'')]]\<rparr> =
   Inr (\<lparr>events =
           [JObj [(''date'', JStr ''2025-01-01T00:00:00.000Z''), (''domain'', JStr ''a.ch''),
                  (''status'', JStr ''available''), (''previousStatus'', JNull)],
            JObj [(''date'', JStr ''2025-01-02T00:00:00.000Z''), (''domain'', JStr ''a.ch''),
                  (''status'', JStr ''registered''), (''previousStatus'', JStr ''available'')]],
         lastState = [''a.ch'' \<mapsto> JObj [(''status'', JStr ''registered'')]]\<rparr>, 1)
   \<and> reconcile utcEngine 1735862400000 1735862400000
     [\<lparr>domain = ''a.ch'', registered = True, website = answered ''https'' 200 ''https://a.ch/''\<rparr>]
     \<lparr>events =
        [JObj [(''date'', JStr ''2025-01-01T00:00:00.000Z''), (''domain'', JStr ''a.ch''),
               (''status'', JStr ''available''), (''previousStatus'', JNull)],
         JObj [(''date'', JStr ''2025-01-02T00:00:00.000Z''), (''domain'', JStr ''a.ch''),
               (''status'', JStr ''registered''), (''previousStatus'', JStr ''available'')]],
      lastState = [''a.ch'' \<mapsto> JObj [(''status'', JStr ''registered'')]]\<rparr> =
   Inr (\<lparr>events =
           [JObj [(''date'', JStr ''2025-01-01T00:00:00.000Z''), (''domain'', JStr ''a.ch''),
                  (''status'', JStr ''available''), (''previousStatus'', JNull)],
            JObj [(''date'', JStr ''2025-01-02T00:00:00.000Z''), (''domain'', JStr ''a.ch''),
                  (''status'', JStr ''registered''), (''previousStatus'', JStr ''available'')],
            JObj [(''date'', JStr ''2025-01-03T00:00:00.000Z''), (''domain'', JStr ''a.ch''),
                  (''status'', JStr ''website''), (''previousStatus'', JStr ''registered'')]],
         lastState = [''a.ch'' \<mapsto> JObj [(''status'', JStr ''website'')]]\<rparr>, 1)"
  by (simp add: updateHistory_def emptyHistory_def reconcile_def reconcileLoop_def
        reconcileEntry_def Let_def currentStatus_def prevStatus_def orNull_def historyEvent_def
        keepEvent_def utc_cutoff absent_def answered_def)

lemma distinct_domains_consistent:
  assumes "distinct (map domain rs)"
  shows "\<forall>a \<in> set rs. \<forall>b \<in> set rs. domain a = domain b \<longrightarrow> currentStatus a = currentStatus b"
proof (intro ballI impI)
  fix a b assume "a \<in> set rs" "b \<in> set rs" "domain a = domain b"
  with assms have "a = b" by (meson distinct_map inj_onD)
  then show "currentStatus a = currentStatus b" by simp
qed











end
